theory Spec2Isabelle
  imports Main
begin

section \<open>Values of the request and of the schema engine\<close>

text \<open>
  The sections of a request, the data a schema returns and the payload of a response are
  JavaScript values. Objects are maps from property names to values; numbers are the
  integers (the steps never compute with them).
\<close>

datatype jval =
    JUndefined
  | JNull
  | JBool bool
  | JNum int
  | JStr string
  | JArr "jval list"
  | JObj "string \<Rightarrow> jval option"

text \<open>Decimal rendering of an index, the property name of an array element.\<close>

fun show_nat :: "nat \<Rightarrow> string" where
  "show_nat n =
     (if n < 10 then [''0123456789'' ! n]
      else show_nat (n div 10) @ [''0123456789'' ! (n mod 10)])"

declare show_nat.simps [simp del]

text \<open>
  The own enumerable properties an object spread \<open>{...v}\<close> copies: the properties of an
  object, the indexed elements of an array, the indexed characters of a string, and
  nothing for \<open>undefined\<close>, \<open>null\<close>, a boolean or a number.
\<close>

fun own_props :: "jval \<Rightarrow> (string \<Rightarrow> jval option)" where
  "own_props (JObj m) = m"
| "own_props (JArr xs) = map_of (zip (map show_nat [0..<length xs]) xs)"
| "own_props (JStr s) = map_of (zip (map show_nat [0..<length s]) (map (\<lambda>c. JStr [c]) s))"
| "own_props JUndefined = Map.empty"
| "own_props JNull = Map.empty"
| "own_props (JBool b) = Map.empty"
| "own_props (JNum n) = Map.empty"

text \<open>\<open>{ ...a, ...b }\<close>: a fresh object with the properties of \<open>a\<close>, then those of \<open>b\<close>.\<close>

definition spread :: "jval \<Rightarrow> jval \<Rightarrow> jval" where
  "spread a b = JObj (own_props a ++ own_props b)"

text \<open>
  \<open>safeParse\<close> of the schema engine: either \<open>{ success: true, data }\<close> or
  \<open>{ success: false, error }\<close>. The error is the engine's own value. A schema is the
  function its \<open>safeParse\<close> computes.
\<close>

datatype SafeParseReturn = ParseSuccess jval | ParseError jval

type_synonym ZodSchema = "jval \<Rightarrow> SafeParseReturn"

text \<open>
  \<open>RequestValidation\<close> and \<open>RequestProcessing\<close>: each entry optional. The fields are
  \<open>params\<close>, \<open>query\<close> and \<open>body\<close> in the source; they carry a suffix here since the
  request has fields of the same names.
\<close>

record RequestValidation =
  params_schema :: "ZodSchema option"
  query_schema :: "ZodSchema option"
  body_schema :: "ZodSchema option"

datatype SectionType = Query | Params | Body

record ErrorListItem =
  type :: SectionType
  errors :: jval

section \<open>Request, response and continuation\<close>

record NextApiRequest =
  params :: jval
  query :: jval
  body :: jval

text \<open>
  The response: \<open>res.status(n)\<close> sets the status code, \<open>res.json(v)\<close> writes the payload
  \<open>v\<close>; \<open>sent\<close> lists the payloads written so far, oldest first.
\<close>

record NextApiResponse =
  status_code :: nat
  sent :: "jval list"

definition status :: "nat \<Rightarrow> NextApiResponse \<Rightarrow> NextApiResponse" where
  "status n r = r\<lparr>status_code := n\<rparr>"

definition json :: "jval \<Rightarrow> NextApiResponse \<Rightarrow> NextApiResponse" where
  "json v r = r\<lparr>sent := sent r @ [v]\<rparr>"

text \<open>
  What a step \<open>(req, res, next) => ...\<close> works on: the request and the response, both
  mutable, and the number of times the continuation \<open>next\<close> has been called.
\<close>

record exchange =
  req :: NextApiRequest
  res :: NextApiResponse
  next_calls :: nat

definition call_next :: "exchange \<Rightarrow> exchange" where
  "call_next x = x\<lparr>next_calls := next_calls x + 1\<rparr>"

section \<open>The error response\<close>

definition type_name :: "SectionType \<Rightarrow> string" where
  "type_name t = (case t of Query \<Rightarrow> ''Query'' | Params \<Rightarrow> ''Params'' | Body \<Rightarrow> ''Body'')"

text \<open>\<open>errors.map((error) => ({ type: error.type, errors: error.errors }))\<close>\<close>

definition meta_of :: "ErrorListItem list \<Rightarrow> jval" where
  "meta_of errs =
     JArr (map (\<lambda>error. JObj [''type'' \<mapsto> JStr (type_name (type error)),
                                ''errors'' \<mapsto> errors error]) errs)"

subsection \<open>src/unnamed/part_000: the response is written in place\<close>

text \<open>
  Definitions of \<open>src/unnamed/part_000\<close> carry the suffix \<open>_nc\<close> (its steps are
  next-connect middleware); those of \<open>src/src/index.ts\<close> keep their names.
\<close>

definition sendErrors_nc :: "ErrorListItem list \<Rightarrow> NextApiResponse \<Rightarrow> NextApiResponse" where
  "sendErrors_nc errs rs =
     json (JObj [''success'' \<mapsto> JBool False,
                 ''errorCode'' \<mapsto> JStr ''bad_request'',
                 ''meta'' \<mapsto> meta_of errs])
       (status 400 rs)"

subsection \<open>src/src/index.ts: the response is written by \<open>answer\<close>\<close>

record AnswerOptions =
  statusCode :: nat
  data :: jval
  errorCode :: jval
  meta :: jval

text \<open>
  Modelled from the spec: \<open>ErrorCodes.BAD_REQUEST\<close> of the package nextjs-api-utils,
  which is not among the sources. The spec gives the error code of the envelope as
  \<open>"bad_request"\<close>.
\<close>

definition BAD_REQUEST :: jval where
  "BAD_REQUEST = JStr ''bad_request''"

text \<open>
  Modelled from the spec: \<open>answer\<close> of the package nextjs-api-utils, which is not among
  the sources. The spec gives the failure response as the HTTP status of the call and
  the JSON body \<open>{ success: false, errorCode, meta }\<close>, written once; it gives no other
  use of the request or of \<open>data\<close>.
\<close>

definition answer :: "NextApiRequest \<Rightarrow> NextApiResponse \<Rightarrow> AnswerOptions \<Rightarrow> NextApiResponse" where
  "answer rq rs opts =
     json (JObj [''success'' \<mapsto> JBool False,
                 ''errorCode'' \<mapsto> errorCode opts,
                 ''meta'' \<mapsto> meta opts])
       (status (statusCode opts) rs)"

definition sendErrors :: "ErrorListItem list \<Rightarrow> NextApiResponse \<Rightarrow> NextApiRequest \<Rightarrow> NextApiResponse" where
  "sendErrors errs rs rq =
     answer rq rs \<lparr>statusCode = 400, data = JNull, errorCode = BAD_REQUEST, meta = meta_of errs\<rparr>"

section \<open>Steps of src/src/index.ts\<close>

type_synonym Step = "exchange \<Rightarrow> exchange"

definition processRequestBody :: "ZodSchema \<Rightarrow> Step" where
  "processRequestBody effectsSchema x =
     (case effectsSchema (body (req x)) of
        ParseSuccess d \<Rightarrow> call_next (x\<lparr>req := (req x)\<lparr>body := d\<rparr>\<rparr>)
      | ParseError e \<Rightarrow> x\<lparr>res := sendErrors [\<lparr>type = Body, errors = e\<rparr>] (res x) (req x)\<rparr>)"

definition processRequestParams :: "ZodSchema \<Rightarrow> Step" where
  "processRequestParams effectsSchema x =
     (case effectsSchema (query (req x)) of
        ParseSuccess d \<Rightarrow> call_next (x\<lparr>req := (req x)\<lparr>query := spread (query (req x)) d\<rparr>\<rparr>)
      | ParseError e \<Rightarrow> x\<lparr>res := sendErrors [\<lparr>type = Params, errors = e\<rparr>] (res x) (req x)\<rparr>)"

definition processRequestQuery :: "ZodSchema \<Rightarrow> Step" where
  "processRequestQuery effectsSchema x =
     (case effectsSchema (query (req x)) of
        ParseSuccess d \<Rightarrow> call_next (x\<lparr>req := (req x)\<lparr>query := spread (query (req x)) d\<rparr>\<rparr>)
      | ParseError e \<Rightarrow> x\<lparr>res := sendErrors [\<lparr>type = Query, errors = e\<rparr>] (res x) (req x)\<rparr>)"

text \<open>
  The three \<open>if (schemas. ...) { ... }\<close> blocks of \<open>processRequest\<close>, each on the exchange
  and the local list \<open>errors\<close>.
\<close>

definition processRequest_params ::
  "ZodSchema option \<Rightarrow> exchange \<times> ErrorListItem list \<Rightarrow> exchange \<times> ErrorListItem list" where
  "processRequest_params schema st =
     (case schema of
        None \<Rightarrow> st
      | Some s \<Rightarrow>
          (case st of (x, errs) \<Rightarrow>
            (case s (params (req x)) of
               ParseSuccess d \<Rightarrow> (x\<lparr>req := (req x)\<lparr>query := spread (query (req x)) d\<rparr>\<rparr>, errs)
             | ParseError e \<Rightarrow> (x, errs @ [\<lparr>type = Params, errors = e\<rparr>]))))"

definition processRequest_query ::
  "ZodSchema option \<Rightarrow> exchange \<times> ErrorListItem list \<Rightarrow> exchange \<times> ErrorListItem list" where
  "processRequest_query schema st =
     (case schema of
        None \<Rightarrow> st
      | Some s \<Rightarrow>
          (case st of (x, errs) \<Rightarrow>
            (case s (query (req x)) of
               ParseSuccess d \<Rightarrow> (x\<lparr>req := (req x)\<lparr>query := spread (query (req x)) d\<rparr>\<rparr>, errs)
             | ParseError e \<Rightarrow> (x, errs @ [\<lparr>type = Query, errors = e\<rparr>]))))"

definition processRequest_body ::
  "ZodSchema option \<Rightarrow> exchange \<times> ErrorListItem list \<Rightarrow> exchange \<times> ErrorListItem list" where
  "processRequest_body schema st =
     (case schema of
        None \<Rightarrow> st
      | Some s \<Rightarrow>
          (case st of (x, errs) \<Rightarrow>
            (case s (body (req x)) of
               ParseSuccess d \<Rightarrow> (x\<lparr>req := (req x)\<lparr>body := d\<rparr>\<rparr>, errs)
             | ParseError e \<Rightarrow> (x, errs @ [\<lparr>type = Body, errors = e\<rparr>]))))"

definition processRequest :: "RequestValidation \<Rightarrow> Step" where
  "processRequest schemas x =
     (case processRequest_body (body_schema schemas)
             (processRequest_query (query_schema schemas)
               (processRequest_params (params_schema schemas) (x, []))) of
        (x', errs) \<Rightarrow>
          if length errs > 0 then x'\<lparr>res := sendErrors errs (res x') (req x')\<rparr>
          else call_next x')"

definition validateRequestBody :: "ZodSchema \<Rightarrow> Step" where
  "validateRequestBody schema x =
     (case schema (body (req x)) of
        ParseSuccess d \<Rightarrow> call_next x
      | ParseError e \<Rightarrow> x\<lparr>res := sendErrors [\<lparr>type = Body, errors = e\<rparr>] (res x) (req x)\<rparr>)"

definition validateRequestParams :: "ZodSchema \<Rightarrow> Step" where
  "validateRequestParams schema x =
     (case schema (params (req x)) of
        ParseSuccess d \<Rightarrow> call_next x
      | ParseError e \<Rightarrow> x\<lparr>res := sendErrors [\<lparr>type = Params, errors = e\<rparr>] (res x) (req x)\<rparr>)"

definition validateRequestQuery :: "ZodSchema \<Rightarrow> Step" where
  "validateRequestQuery schema x =
     (case schema (query (req x)) of
        ParseSuccess d \<Rightarrow> call_next x
      | ParseError e \<Rightarrow> x\<lparr>res := sendErrors [\<lparr>type = Query, errors = e\<rparr>] (res x) (req x)\<rparr>)"

text \<open>
  The blocks of \<open>validateRequest\<close>: \<open>if (section) { ...; if (!parsed.success) errors.push }\<close>,
  on the value of the section read and the list \<open>errors\<close>.
\<close>

definition validateRequest_section ::
  "ZodSchema option \<Rightarrow> SectionType \<Rightarrow> jval \<Rightarrow> ErrorListItem list \<Rightarrow> ErrorListItem list" where
  "validateRequest_section schema t v errs =
     (case schema of
        None \<Rightarrow> errs
      | Some s \<Rightarrow>
          (case s v of
             ParseSuccess d \<Rightarrow> errs
           | ParseError e \<Rightarrow> errs @ [\<lparr>type = t, errors = e\<rparr>]))"

definition validateRequest :: "RequestValidation \<Rightarrow> Step" where
  "validateRequest schemas x =
     (let errs = validateRequest_section (params_schema schemas) Params (params (req x)) [];
          errs = validateRequest_section (query_schema schemas) Query (query (req x)) errs;
          errs = validateRequest_section (body_schema schemas) Body (body (req x)) errs
      in if length errs > 0 then x\<lparr>res := sendErrors errs (res x) (req x)\<rparr>
         else call_next x)"

section \<open>Steps of src/unnamed/part_000\<close>

text \<open>
  The schema set of this file has the entries \<open>query\<close> and \<open>body\<close> only; its steps never
  look at a \<open>params\<close> entry. The query block and the body block of its \<open>processRequest\<close>,
  and the blocks of its \<open>validateRequest\<close>, are those of index.ts word for word.
\<close>

definition processRequestBody_nc :: "ZodSchema \<Rightarrow> Step" where
  "processRequestBody_nc effectsSchema x =
     (case effectsSchema (body (req x)) of
        ParseSuccess d \<Rightarrow> call_next (x\<lparr>req := (req x)\<lparr>body := d\<rparr>\<rparr>)
      | ParseError e \<Rightarrow> x\<lparr>res := sendErrors_nc [\<lparr>type = Body, errors = e\<rparr>] (res x)\<rparr>)"

definition processRequestQuery_nc :: "ZodSchema \<Rightarrow> Step" where
  "processRequestQuery_nc effectsSchema x =
     (case effectsSchema (query (req x)) of
        ParseSuccess d \<Rightarrow> call_next (x\<lparr>req := (req x)\<lparr>query := spread (query (req x)) d\<rparr>\<rparr>)
      | ParseError e \<Rightarrow> x\<lparr>res := sendErrors_nc [\<lparr>type = Query, errors = e\<rparr>] (res x)\<rparr>)"

definition processRequest_nc :: "RequestValidation \<Rightarrow> Step" where
  "processRequest_nc schemas x =
     (case processRequest_body (body_schema schemas)
             (processRequest_query (query_schema schemas) (x, [])) of
        (x', errs) \<Rightarrow>
          if length errs > 0 then x'\<lparr>res := sendErrors_nc errs (res x')\<rparr>
          else call_next x')"

definition validateRequestBody_nc :: "ZodSchema \<Rightarrow> Step" where
  "validateRequestBody_nc schema x =
     (case schema (body (req x)) of
        ParseSuccess d \<Rightarrow> call_next x
      | ParseError e \<Rightarrow> x\<lparr>res := sendErrors_nc [\<lparr>type = Body, errors = e\<rparr>] (res x)\<rparr>)"

definition validateRequestQuery_nc :: "ZodSchema \<Rightarrow> Step" where
  "validateRequestQuery_nc schema x =
     (case schema (query (req x)) of
        ParseSuccess d \<Rightarrow> call_next x
      | ParseError e \<Rightarrow> x\<lparr>res := sendErrors_nc [\<lparr>type = Query, errors = e\<rparr>] (res x)\<rparr>)"

definition validateRequest_nc :: "RequestValidation \<Rightarrow> Step" where
  "validateRequest_nc schemas x =
     (let errs = validateRequest_section (query_schema schemas) Query (query (req x)) [];
          errs = validateRequest_section (body_schema schemas) Body (body (req x)) errs
      in if length errs > 0 then x\<lparr>res := sendErrors_nc errs (res x)\<rparr>
         else call_next x)"

section \<open>Vocabulary of the specification\<close>

text \<open>
  The outcome of one section: \<open>violation\<close> is the list of its ViolationEntry (empty when
  the section is not configured or its schema accepts the value), \<open>rejects\<close> and
  \<open>succeeds\<close> say whether a configured schema refused or accepted the value.
\<close>

definition violation :: "ZodSchema option \<Rightarrow> SectionType \<Rightarrow> jval \<Rightarrow> ErrorListItem list" where
  "violation schema t v =
     (case schema of
        None \<Rightarrow> []
      | Some s \<Rightarrow> (case s v of ParseSuccess d \<Rightarrow> [] | ParseError e \<Rightarrow> [\<lparr>type = t, errors = e\<rparr>]))"

definition rejects :: "ZodSchema option \<Rightarrow> jval \<Rightarrow> bool" where
  "rejects schema v =
     (case schema of
        None \<Rightarrow> False
      | Some s \<Rightarrow> (case s v of ParseSuccess d \<Rightarrow> False | ParseError e \<Rightarrow> True))"

definition succeeds :: "ZodSchema option \<Rightarrow> jval \<Rightarrow> bool" where
  "succeeds schema v =
     (case schema of
        None \<Rightarrow> False
      | Some s \<Rightarrow> (case s v of ParseSuccess d \<Rightarrow> True | ParseError e \<Rightarrow> False))"

text \<open>
  The merge policy: \<open>overlaid schema v target\<close> is \<open>target\<close> with the coerced output of
  \<open>schema\<close> on \<open>v\<close> laid over it (the coerced keys win), and \<open>target\<close> itself when the
  schema is not configured or refuses \<open>v\<close>; \<open>replaced schema v\<close> is the coerced output
  in place of \<open>v\<close>, and \<open>v\<close> itself when the schema is not configured or refuses it.
\<close>

definition overlaid :: "ZodSchema option \<Rightarrow> jval \<Rightarrow> jval \<Rightarrow> jval" where
  "overlaid schema v target =
     (case schema of
        None \<Rightarrow> target
      | Some s \<Rightarrow> (case s v of ParseSuccess d \<Rightarrow> spread target d | ParseError e \<Rightarrow> target))"

definition replaced :: "ZodSchema option \<Rightarrow> jval \<Rightarrow> jval" where
  "replaced schema v =
     (case schema of
        None \<Rightarrow> v
      | Some s \<Rightarrow> (case s v of ParseSuccess d \<Rightarrow> d | ParseError e \<Rightarrow> v))"

text \<open>The wire format of the failure response.\<close>

definition ViolationEntry :: "ErrorListItem \<Rightarrow> jval" where
  "ViolationEntry v = JObj [''type'' \<mapsto> JStr (type_name (type v)), ''errors'' \<mapsto> errors v]"

definition ErrorEnvelope :: "ErrorListItem list \<Rightarrow> jval" where
  "ErrorEnvelope vs =
     JObj [''success'' \<mapsto> JBool False,
           ''errorCode'' \<mapsto> JStr ''bad_request'',
           ''meta'' \<mapsto> JArr (map ViolationEntry vs)]"

section \<open>Example schemas and requests\<close>

text \<open>\<open>z.any().transform(() => d)\<close>: accepts every value and parses it to \<open>d\<close>.\<close>

definition transform_to :: "jval \<Rightarrow> ZodSchema" where
  "transform_to d v = ParseSuccess d"

text \<open>\<open>z.any().transform((v) => ({ seen: v }))\<close>: accepts every value and wraps it.\<close>

definition seen_of :: "jval \<Rightarrow> jval" where
  "seen_of v = JObj [''seen'' \<mapsto> v]"

definition wrap_seen :: ZodSchema where
  "wrap_seen v = ParseSuccess (seen_of v)"

text \<open>\<open>z.never()\<close>: refuses every value.\<close>

definition never_issue :: jval where
  "never_issue = JArr [JObj [''path'' \<mapsto> JArr [], ''message'' \<mapsto> JStr ''Expected never'']]"

definition never_schema :: ZodSchema where
  "never_schema v = ParseError never_issue"

definition ab12 :: jval where
  "ab12 = JObj [''a'' \<mapsto> JNum 1, ''b'' \<mapsto> JNum 2]"

definition bc34 :: jval where
  "bc34 = JObj [''b'' \<mapsto> JNum 3, ''c'' \<mapsto> JNum 4]"

definition a1b3c4 :: jval where
  "a1b3c4 = JObj [''a'' \<mapsto> JNum 1, ''b'' \<mapsto> JNum 3, ''c'' \<mapsto> JNum 4]"

definition id7 :: jval where
  "id7 = JObj [''id'' \<mapsto> JStr ''7'']"

text \<open>
  A request with params \<open>{ id: "7" }\<close>, query \<open>{ a: 1, b: 2 }\<close> and body \<open>{}\<close>, a response
  nothing has been written to, and a continuation not yet called.
\<close>

definition example_exchange :: exchange where
  "example_exchange =
     \<lparr>req = \<lparr>params = id7, query = ab12, body = JObj Map.empty\<rparr>,
      res = \<lparr>status_code = 200, sent = []\<rparr>,
      next_calls = 0\<rparr>"

text \<open>A schema set whose params and body schemas refuse and whose query schema accepts.\<close>

definition two_failures :: RequestValidation where
  "two_failures =
     \<lparr>params_schema = Some never_schema,
      query_schema = Some (transform_to bc34),
      body_schema = Some never_schema\<rparr>"

text \<open>Schema sets with one section configured.\<close>

definition params_only :: RequestValidation where
  "params_only =
     \<lparr>params_schema = Some (transform_to bc34), query_schema = None, body_schema = None\<rparr>"

definition query_only :: RequestValidation where
  "query_only =
     \<lparr>params_schema = None, query_schema = Some (transform_to bc34), body_schema = None\<rparr>"

definition body_never :: RequestValidation where
  "body_never =
     \<lparr>params_schema = None, query_schema = None, body_schema = Some never_schema\<rparr>"

section \<open>Properties of the values\<close>

lemma map_neqI: "m k \<noteq> n k \<Longrightarrow> m \<noteq> n"
  by auto

lemma spread_obj: "spread (JObj m) (JObj n) = JObj (m ++ n)"
  by (simp add: spread_def)

lemma spread_ab12_bc34: "spread ab12 bc34 = a1b3c4"
  by (simp add: ab12_def bc34_def a1b3c4_def spread_obj)

lemma ab12_neq_a1b3c4: "a1b3c4 \<noteq> ab12"
  by (simp add: ab12_def a1b3c4_def map_neqI [of _ "''c''"])

section \<open>The error response, spelled out\<close>

lemma meta_of_eq: "meta_of errs = JArr (map ViolationEntry errs)"
  by (simp add: meta_of_def ViolationEntry_def)

lemma sendErrors_eq:
  "sendErrors errs rs rq = \<lparr>status_code = 400, sent = sent rs @ [ErrorEnvelope errs]\<rparr>"
  by (simp add: sendErrors_def answer_def json_def status_def BAD_REQUEST_def
      meta_of_eq ErrorEnvelope_def)

lemma sendErrors_nc_eq:
  "sendErrors_nc errs rs = \<lparr>status_code = 400, sent = sent rs @ [ErrorEnvelope errs]\<rparr>"
  by (simp add: sendErrors_nc_def json_def status_def meta_of_eq ErrorEnvelope_def)

section \<open>The blocks of the aggregate steps\<close>

lemma validateRequest_section_eq:
  "validateRequest_section schema t v errs = errs @ violation schema t v"
  by (simp add: validateRequest_section_def violation_def
      split: option.splits SafeParseReturn.splits)

lemma processRequest_params_eq:
  "processRequest_params schema (x, errs) =
     (x\<lparr>req := (req x)\<lparr>query := overlaid schema (params (req x)) (query (req x))\<rparr>\<rparr>,
      errs @ violation schema Params (params (req x)))"
  by (simp add: processRequest_params_def overlaid_def violation_def
      split: option.splits SafeParseReturn.splits)

lemma processRequest_query_eq:
  "processRequest_query schema (x, errs) =
     (x\<lparr>req := (req x)\<lparr>query := overlaid schema (query (req x)) (query (req x))\<rparr>\<rparr>,
      errs @ violation schema Query (query (req x)))"
  by (simp add: processRequest_query_def overlaid_def violation_def
      split: option.splits SafeParseReturn.splits)

lemma processRequest_body_eq:
  "processRequest_body schema (x, errs) =
     (x\<lparr>req := (req x)\<lparr>body := replaced schema (body (req x))\<rparr>\<rparr>,
      errs @ violation schema Body (body (req x)))"
  by (simp add: processRequest_body_def replaced_def violation_def
      split: option.splits SafeParseReturn.splits)

lemma violation_Nil_iff: "violation schema t v = [] \<longleftrightarrow> \<not> rejects schema v"
  by (simp add: violation_def rejects_def split: option.splits SafeParseReturn.splits)

lemma two_failures_violations:
  "violation (params_schema two_failures) Params v = [\<lparr>type = Params, errors = never_issue\<rparr>]"
  "violation (query_schema two_failures) Query v = []"
  "violation (body_schema two_failures) Body v = [\<lparr>type = Body, errors = never_issue\<rparr>]"
  by (simp_all add: two_failures_def violation_def never_schema_def transform_to_def)

lemma two_failures_rejects:
  "rejects (params_schema two_failures) v"
  "\<not> rejects (query_schema two_failures) v"
  "rejects (body_schema two_failures) v"
  by (simp_all add: two_failures_def rejects_def never_schema_def transform_to_def)

lemma ErrorEnvelope_shape:
  "\<exists>m. ErrorEnvelope vs =
     JObj [''success'' \<mapsto> JBool False, ''errorCode'' \<mapsto> JStr ''bad_request'', ''meta'' \<mapsto> JArr m]"
  unfolding ErrorEnvelope_def by blast

section \<open>The aggregate steps, spelled out\<close>

text \<open>
  Each aggregate step as one expression of the original request: the request it leaves,
  the violations it collects, and the decision it takes on them.
\<close>

lemma processRequest_eq:
  "processRequest schemas x =
     (let r = req x;
          q = overlaid (params_schema schemas) (params r) (query r);
          r' = r\<lparr>query := overlaid (query_schema schemas) q q,
                 body := replaced (body_schema schemas) (body r)\<rparr>;
          vs = violation (params_schema schemas) Params (params r)
             @ violation (query_schema schemas) Query q
             @ violation (body_schema schemas) Body (body r)
      in if vs = [] then x\<lparr>req := r', next_calls := next_calls x + 1\<rparr>
         else x\<lparr>req := r', res := sendErrors vs (res x) r'\<rparr>)"
  by (simp add: processRequest_def processRequest_params_eq processRequest_query_eq
      processRequest_body_eq call_next_def Let_def)

lemma processRequest_nc_eq:
  "processRequest_nc schemas x =
     (let r = req x;
          r' = r\<lparr>query := overlaid (query_schema schemas) (query r) (query r),
                 body := replaced (body_schema schemas) (body r)\<rparr>;
          vs = violation (query_schema schemas) Query (query r)
             @ violation (body_schema schemas) Body (body r)
      in if vs = [] then x\<lparr>req := r', next_calls := next_calls x + 1\<rparr>
         else x\<lparr>req := r', res := sendErrors_nc vs (res x)\<rparr>)"
  by (simp add: processRequest_nc_def processRequest_query_eq
      processRequest_body_eq call_next_def Let_def)

lemma validateRequest_eq:
  "validateRequest schemas x =
     (let r = req x;
          vs = violation (params_schema schemas) Params (params r)
             @ violation (query_schema schemas) Query (query r)
             @ violation (body_schema schemas) Body (body r)
      in if vs = [] then x\<lparr>next_calls := next_calls x + 1\<rparr>
         else x\<lparr>res := sendErrors vs (res x) r\<rparr>)"
  by (simp add: validateRequest_def validateRequest_section_eq call_next_def Let_def)

lemma validateRequest_nc_eq:
  "validateRequest_nc schemas x =
     (let r = req x;
          vs = violation (query_schema schemas) Query (query r)
             @ violation (body_schema schemas) Body (body r)
      in if vs = [] then x\<lparr>next_calls := next_calls x + 1\<rparr>
         else x\<lparr>res := sendErrors_nc vs (res x)\<rparr>)"
  by (simp add: validateRequest_nc_def validateRequest_section_eq call_next_def Let_def)

section \<open>C1: every failing section is reported, in the order params, query, body\<close>

text \<open>
  C1. The aggregate steps \<open>processRequest\<close> and \<open>validateRequest\<close> (of both files) evaluate
  every configured section, whatever the earlier ones gave. With \<open>vs\<close> the violations of
  the params, the query and the body section, in this order, a section that passed or is
  not configured contributing nothing: when \<open>vs\<close> is empty the continuation is called
  once and nothing is written; otherwise one response is written, status 400, whose
  envelope has exactly \<open>vs\<close> as its \<open>meta\<close>, and the continuation is not called.
  In \<open>processRequest\<close> of index.ts the query schema is given the query section as the
  params block left it.
\<close>

theorem C1_aggregate_reports_every_failing_section:
  "(let r = req x;
        vs = violation (params_schema schemas) Params (params r)
           @ violation (query_schema schemas) Query
               (overlaid (params_schema schemas) (params r) (query r))
           @ violation (body_schema schemas) Body (body r);
        y = processRequest schemas x
    in if vs = [] then res y = res x \<and> next_calls y = next_calls x + 1
       else res y = \<lparr>status_code = 400, sent = sent (res x) @ [ErrorEnvelope vs]\<rparr>
          \<and> next_calls y = next_calls x)
 \<and> (let r = req x;
        vs = violation (params_schema schemas) Params (params r)
           @ violation (query_schema schemas) Query (query r)
           @ violation (body_schema schemas) Body (body r);
        y = validateRequest schemas x
    in if vs = [] then res y = res x \<and> next_calls y = next_calls x + 1
       else res y = \<lparr>status_code = 400, sent = sent (res x) @ [ErrorEnvelope vs]\<rparr>
          \<and> next_calls y = next_calls x)
 \<and> (let r = req x;
        vs = violation (query_schema schemas) Query (query r)
           @ violation (body_schema schemas) Body (body r);
        y = processRequest_nc schemas x
    in if vs = [] then res y = res x \<and> next_calls y = next_calls x + 1
       else res y = \<lparr>status_code = 400, sent = sent (res x) @ [ErrorEnvelope vs]\<rparr>
          \<and> next_calls y = next_calls x)
 \<and> (let r = req x;
        vs = violation (query_schema schemas) Query (query r)
           @ violation (body_schema schemas) Body (body r);
        y = validateRequest_nc schemas x
    in if vs = [] then res y = res x \<and> next_calls y = next_calls x + 1
       else res y = \<lparr>status_code = 400, sent = sent (res x) @ [ErrorEnvelope vs]\<rparr>
          \<and> next_calls y = next_calls x)"
  by (simp add: processRequest_eq validateRequest_eq processRequest_nc_eq validateRequest_nc_eq
      sendErrors_eq sendErrors_nc_eq Let_def)

text \<open>
  Params and body both refused, query accepted: the envelope lists Params, then Body.
\<close>

theorem C1_two_failures_witness:
  "res (processRequest two_failures example_exchange) =
     \<lparr>status_code = 400,
      sent = [ErrorEnvelope [\<lparr>type = Params, errors = never_issue\<rparr>,
                             \<lparr>type = Body, errors = never_issue\<rparr>]]\<rparr>
   \<and> next_calls (processRequest two_failures example_exchange) = 0
   \<and> res (validateRequest_nc two_failures example_exchange) =
     \<lparr>status_code = 400, sent = [ErrorEnvelope [\<lparr>type = Body, errors = never_issue\<rparr>]]\<rparr>"
  using C1_aggregate_reports_every_failing_section [of example_exchange two_failures]
  by (simp add: two_failures_violations example_exchange_def Let_def)

section \<open>C2: a failing request gets one 400 response and is not continued\<close>

text \<open>
  C2. For the aggregate steps of both files: when a configured section's schema refuses the
  value it is given, the step writes exactly one response, with status 400 and a JSON body
  \<open>{ success: false, errorCode: "bad_request", meta: [...] }\<close>, and does not call the
  continuation; otherwise it writes nothing and calls the continuation exactly once. So
  the continuation is called at most once per request.
\<close>

theorem C2_failure_writes_one_400_and_never_continues:
  "(let r = req x; y = processRequest schemas x
    in if rejects (params_schema schemas) (params r)
          \<or> rejects (query_schema schemas) (overlaid (params_schema schemas) (params r) (query r))
          \<or> rejects (body_schema schemas) (body r)
       then status_code (res y) = 400
          \<and> (\<exists>m. sent (res y) = sent (res x) @
                 [JObj [''success'' \<mapsto> JBool False, ''errorCode'' \<mapsto> JStr ''bad_request'',
                        ''meta'' \<mapsto> JArr m]])
          \<and> next_calls y = next_calls x
       else res y = res x \<and> next_calls y = next_calls x + 1)
 \<and> (let r = req x; y = validateRequest schemas x
    in if rejects (params_schema schemas) (params r)
          \<or> rejects (query_schema schemas) (query r)
          \<or> rejects (body_schema schemas) (body r)
       then status_code (res y) = 400
          \<and> (\<exists>m. sent (res y) = sent (res x) @
                 [JObj [''success'' \<mapsto> JBool False, ''errorCode'' \<mapsto> JStr ''bad_request'',
                        ''meta'' \<mapsto> JArr m]])
          \<and> next_calls y = next_calls x
       else res y = res x \<and> next_calls y = next_calls x + 1)
 \<and> (let r = req x; y = processRequest_nc schemas x
    in if rejects (query_schema schemas) (query r) \<or> rejects (body_schema schemas) (body r)
       then status_code (res y) = 400
          \<and> (\<exists>m. sent (res y) = sent (res x) @
                 [JObj [''success'' \<mapsto> JBool False, ''errorCode'' \<mapsto> JStr ''bad_request'',
                        ''meta'' \<mapsto> JArr m]])
          \<and> next_calls y = next_calls x
       else res y = res x \<and> next_calls y = next_calls x + 1)
 \<and> (let r = req x; y = validateRequest_nc schemas x
    in if rejects (query_schema schemas) (query r) \<or> rejects (body_schema schemas) (body r)
       then status_code (res y) = 400
          \<and> (\<exists>m. sent (res y) = sent (res x) @
                 [JObj [''success'' \<mapsto> JBool False, ''errorCode'' \<mapsto> JStr ''bad_request'',
                        ''meta'' \<mapsto> JArr m]])
          \<and> next_calls y = next_calls x
       else res y = res x \<and> next_calls y = next_calls x + 1)"
  by (simp add: processRequest_eq validateRequest_eq processRequest_nc_eq validateRequest_nc_eq
      sendErrors_eq sendErrors_nc_eq Let_def violation_Nil_iff ErrorEnvelope_shape)

theorem C2_failure_witness:
  "rejects (body_schema two_failures) (body (req example_exchange))
   \<and> status_code (res (processRequest two_failures example_exchange)) = 400
   \<and> next_calls (processRequest two_failures example_exchange) = 0
   \<and> length (sent (res (processRequest two_failures example_exchange))) = 1
   \<and> status_code (res (validateRequest_nc two_failures example_exchange)) = 400
   \<and> next_calls (validateRequest_nc two_failures example_exchange) = 0"
  using C2_failure_writes_one_400_and_never_continues [of example_exchange two_failures]
  by (auto simp add: two_failures_rejects example_exchange_def Let_def)

section \<open>C3: what a failing request leaves behind\<close>

lemma overlaid_unless_succeeds: "\<not> succeeds schema v \<Longrightarrow> overlaid schema v target = target"
  by (simp add: succeeds_def overlaid_def split: option.splits SafeParseReturn.splits)

lemma replaced_unless_succeeds: "\<not> succeeds schema v \<Longrightarrow> replaced schema v = v"
  by (simp add: succeeds_def replaced_def split: option.splits SafeParseReturn.splits)

lemma two_failures_succeeds:
  "\<not> succeeds (params_schema two_failures) v"
  "succeeds (query_schema two_failures) v"
  "\<not> succeeds (body_schema two_failures) v"
  by (simp_all add: two_failures_def succeeds_def never_schema_def transform_to_def)

lemma two_failures_overlaid:
  "overlaid (params_schema two_failures) v t = t"
  "overlaid (query_schema two_failures) v t = spread t bc34"
  "replaced (body_schema two_failures) v = v"
  by (simp_all add: two_failures_def overlaid_def replaced_def never_schema_def transform_to_def)

lemma id7_overlay_neq: "id7 \<noteq> spread id7 bc34"
  by (simp add: id7_def bc34_def spread_obj map_neqI [of _ "''c''"])

text \<open>
  C3 as stated fails: the body schema refuses, the query schema accepts, and
  \<open>processRequest\<close> (of either file) leaves the coerced query \<open>{ a: 1, b: 3, c: 4 }\<close> in
  the request it rejects.
\<close>

theorem C3_counterexample:
  "rejects (body_schema two_failures) (body (req example_exchange))
   \<and> query (req (processRequest two_failures example_exchange)) = a1b3c4
   \<and> req (processRequest two_failures example_exchange) \<noteq> req example_exchange
   \<and> req (processRequest_nc two_failures example_exchange) \<noteq> req example_exchange"
  by (simp add: processRequest_eq processRequest_nc_eq two_failures_rejects two_failures_overlaid
      two_failures_violations example_exchange_def Let_def spread_ab12_bc34 ab12_neq_a1b3c4)

text \<open>
  C3, amended. When a configured section fails in \<open>processRequest\<close>, the continuation is
  not called, so the request does not pass the gate; \<open>request.params\<close> is as it was;
  \<open>request.query\<close> is as it was unless the params or the query parse succeeded;
  \<open>request.body\<close> is as it was unless the body parse succeeded. \<open>validateRequest\<close> never
  changes the request.
\<close>

theorem C3_failing_request_is_not_continued:
  "(let r = req x; q = overlaid (params_schema schemas) (params r) (query r);
        y = processRequest schemas x
    in rejects (params_schema schemas) (params r) \<or> rejects (query_schema schemas) q
         \<or> rejects (body_schema schemas) (body r) \<longrightarrow>
       next_calls y = next_calls x
     \<and> params (req y) = params r
     \<and> (\<not> succeeds (params_schema schemas) (params r) \<and> \<not> succeeds (query_schema schemas) q
          \<longrightarrow> query (req y) = query r)
     \<and> (\<not> succeeds (body_schema schemas) (body r) \<longrightarrow> body (req y) = body r))
 \<and> (let r = req x; y = processRequest_nc schemas x
    in rejects (query_schema schemas) (query r) \<or> rejects (body_schema schemas) (body r) \<longrightarrow>
       next_calls y = next_calls x
     \<and> params (req y) = params r
     \<and> (\<not> succeeds (query_schema schemas) (query r) \<longrightarrow> query (req y) = query r)
     \<and> (\<not> succeeds (body_schema schemas) (body r) \<longrightarrow> body (req y) = body r))
 \<and> req (validateRequest schemas x) = req x
 \<and> req (validateRequest_nc schemas x) = req x"
  by (auto simp add: processRequest_eq processRequest_nc_eq validateRequest_eq
      validateRequest_nc_eq Let_def violation_Nil_iff overlaid_unless_succeeds
      replaced_unless_succeeds)

theorem C3_witness:
  "rejects (body_schema two_failures) (body (req example_exchange))
   \<and> \<not> succeeds (body_schema two_failures) (body (req example_exchange))
   \<and> next_calls (processRequest two_failures example_exchange) = next_calls example_exchange
   \<and> params (req (processRequest two_failures example_exchange)) = params (req example_exchange)
   \<and> body (req (processRequest two_failures example_exchange)) = body (req example_exchange)
   \<and> body (req (processRequest_nc two_failures example_exchange)) = body (req example_exchange)"
  using C3_failing_request_is_not_continued [of example_exchange two_failures]
  by (simp add: two_failures_rejects two_failures_succeeds Let_def)

section \<open>C4: the params step writes the query section\<close>

text \<open>
  C4 as stated fails: on a request with params \<open>{ id: "7" }\<close> and query \<open>{ a: 1, b: 2 }\<close>,
  \<open>processRequestParams\<close> with a schema that wraps what it is given leaves the params
  section as it was and lays \<open>{ seen: <the query> }\<close> over the query section.
\<close>

theorem C4_counterexample:
  "wrap_seen (params (req example_exchange)) = ParseSuccess (seen_of id7)
   \<and> params (req (processRequestParams wrap_seen example_exchange)) \<noteq> spread id7 (seen_of id7)
   \<and> params (req (processRequestParams wrap_seen example_exchange)) = id7
   \<and> query (req (processRequestParams wrap_seen example_exchange)) = spread ab12 (seen_of ab12)
   \<and> query (req (processRequestParams wrap_seen example_exchange)) \<noteq> ab12"
  by (simp add: processRequestParams_def wrap_seen_def seen_of_def example_exchange_def
      call_next_def id7_def ab12_def spread_obj map_neqI [of _ "''seen''"])

text \<open>
  C4, amended. \<open>processRequestParams\<close> never changes \<open>request.params\<close> or \<open>request.body\<close>.
  Either it calls the continuation once, writes nothing, and \<open>request.query\<close> is the old
  query section with a coerced output of the schema laid over it; or it leaves the request
  as it was, writes one 400 response with one Params entry, and does not call the
  continuation.
\<close>

theorem C4_params_step_merges_into_query:
  "(let y = processRequestParams schema x
    in params (req y) = params (req x) \<and> body (req y) = body (req x)
     \<and> ((\<exists>v d. schema v = ParseSuccess d
              \<and> query (req y) = spread (query (req x)) d
              \<and> res y = res x \<and> next_calls y = next_calls x + 1)
        \<or> (\<exists>v e. schema v = ParseError e
              \<and> query (req y) = query (req x)
              \<and> res y = \<lparr>status_code = 400,
                          sent = sent (res x) @ [ErrorEnvelope [\<lparr>type = Params, errors = e\<rparr>]]\<rparr>
              \<and> next_calls y = next_calls x)))"
proof (cases "schema (query (req x))")
  case (ParseSuccess d)
  then show ?thesis
    by (auto simp add: processRequestParams_def call_next_def Let_def)
next
  case (ParseError e)
  then show ?thesis
    by (auto simp add: processRequestParams_def sendErrors_eq Let_def)
qed

theorem C4_witness:
  "params (req (processRequestParams wrap_seen example_exchange)) = id7
   \<and> body (req (processRequestParams wrap_seen example_exchange)) = body (req example_exchange)"
  using C4_params_step_merges_into_query [of wrap_seen example_exchange]
  by (simp add: example_exchange_def Let_def)

section \<open>C5: which section each evaluation writes\<close>

text \<open>
  C5 as stated fails: with only a params schema configured, which parses to
  \<open>{ b: 3, c: 4 }\<close>, \<open>processRequest\<close> leaves the params section as it was and changes the
  query section to \<open>{ a: 1, b: 3, c: 4 }\<close>.
\<close>

theorem C5_counterexample:
  "succeeds (params_schema params_only) (params (req example_exchange))
   \<and> params (req (processRequest params_only example_exchange)) \<noteq>
       spread (params (req example_exchange)) bc34
   \<and> params (req (processRequest params_only example_exchange)) = params (req example_exchange)
   \<and> query (req (processRequest params_only example_exchange)) = a1b3c4
   \<and> query (req (processRequest params_only example_exchange)) \<noteq> query (req example_exchange)"
  by (simp add: processRequest_eq params_only_def succeeds_def transform_to_def violation_def
      overlaid_def replaced_def example_exchange_def Let_def spread_ab12_bc34 ab12_neq_a1b3c4
      id7_overlay_neq)

text \<open>
  C5, amended. In \<open>processRequest\<close> each evaluation writes one section and leaves the
  others: the params evaluation lays the coerced params output over \<open>request.query\<close>, the
  query evaluation lays the coerced query output over \<open>request.query\<close>, the body
  evaluation puts the coerced body in place of \<open>request.body\<close>; \<open>request.params\<close> is never
  written. So after the step the params section is the original one, the query section
  carries the params overlay, then the query overlay (the query schema having parsed the
  query section with the params overlay), and the body section is the coerced body.
\<close>

theorem C5_each_section_writes_one_section:
  "fst (processRequest_params schema (x, errs)) =
     x\<lparr>req := (req x)\<lparr>query := overlaid schema (params (req x)) (query (req x))\<rparr>\<rparr>
 \<and> fst (processRequest_query schema (x, errs)) =
     x\<lparr>req := (req x)\<lparr>query := overlaid schema (query (req x)) (query (req x))\<rparr>\<rparr>
 \<and> fst (processRequest_body schema (x, errs)) =
     x\<lparr>req := (req x)\<lparr>body := replaced schema (body (req x))\<rparr>\<rparr>
 \<and> (let r = req x; q = overlaid (params_schema schemas) (params r) (query r)
    in req (processRequest schemas x) =
         \<lparr>params = params r,
          query = overlaid (query_schema schemas) q q,
          body = replaced (body_schema schemas) (body r)\<rparr>)
 \<and> (let r = req x
    in req (processRequest_nc schemas x) =
         \<lparr>params = params r,
          query = overlaid (query_schema schemas) (query r) (query r),
          body = replaced (body_schema schemas) (body r)\<rparr>)"
  by (simp add: processRequest_params_eq processRequest_query_eq processRequest_body_eq
      processRequest_eq processRequest_nc_eq Let_def)

theorem C5_witness:
  "req (processRequest two_failures example_exchange) =
     \<lparr>params = id7, query = a1b3c4, body = body (req example_exchange)\<rparr>"
  using C5_each_section_writes_one_section [of _ example_exchange _ two_failures,
      THEN conjunct2, THEN conjunct2, THEN conjunct2, THEN conjunct1]
  by (simp add: two_failures_overlaid example_exchange_def spread_ab12_bc34 Let_def)

section \<open>C6: validateRequest against processRequest\<close>

lemma body_never_succeeds:
  "\<not> succeeds (params_schema body_never) v"
  "\<not> succeeds (query_schema body_never) v"
  "\<not> succeeds (body_schema body_never) v"
  by (simp_all add: body_never_def succeeds_def never_schema_def)

text \<open>
  C6 as stated fails: with a query schema that parses to \<open>{ b: 3, c: 4 }\<close>, both steps call
  the continuation, \<open>processRequest\<close> leaving the query \<open>{ a: 1, b: 3, c: 4 }\<close> and
  \<open>validateRequest\<close> the original \<open>{ a: 1, b: 2 }\<close>.
\<close>

theorem C6_counterexample:
  "succeeds (query_schema query_only) (query (req example_exchange))
   \<and> query (req (processRequest query_only example_exchange)) = a1b3c4
   \<and> query (req (validateRequest query_only example_exchange)) = ab12
   \<and> processRequest query_only example_exchange \<noteq> validateRequest query_only example_exchange"
proof -
  have p: "query (req (processRequest query_only example_exchange)) = a1b3c4"
    by (simp add: processRequest_eq query_only_def transform_to_def violation_def
        overlaid_def replaced_def example_exchange_def Let_def spread_ab12_bc34)
  have v: "query (req (validateRequest query_only example_exchange)) = ab12"
    by (simp add: validateRequest_eq query_only_def transform_to_def violation_def
        example_exchange_def Let_def)
  have s: "succeeds (query_schema query_only) (query (req example_exchange))"
    by (simp add: query_only_def succeeds_def transform_to_def)
  from p v ab12_neq_a1b3c4
  have "processRequest query_only example_exchange \<noteq> validateRequest query_only example_exchange"
    by auto
  with p v s show ?thesis by simp
qed

text \<open>
  C6, amended. \<open>validateRequest\<close> never changes the request, where \<open>processRequest\<close> applies
  the coercion of every section that parsed. The two write the same response and take the
  same decision on the continuation whenever the params parse does not succeed (in
  part_000, which has no params section, always), and they are equal as steps on every
  request none of whose configured sections parses successfully.
\<close>

theorem C6_validate_decides_like_process_without_coercing:
  "req (validateRequest schemas x) = req x
 \<and> req (validateRequest_nc schemas x) = req x
 \<and> (\<not> succeeds (params_schema schemas) (params (req x)) \<longrightarrow>
       res (processRequest schemas x) = res (validateRequest schemas x)
     \<and> next_calls (processRequest schemas x) = next_calls (validateRequest schemas x))
 \<and> res (processRequest_nc schemas x) = res (validateRequest_nc schemas x)
 \<and> next_calls (processRequest_nc schemas x) = next_calls (validateRequest_nc schemas x)
 \<and> (\<not> succeeds (params_schema schemas) (params (req x))
      \<and> \<not> succeeds (query_schema schemas) (query (req x))
      \<and> \<not> succeeds (body_schema schemas) (body (req x)) \<longrightarrow>
       processRequest schemas x = validateRequest schemas x)
 \<and> (\<not> succeeds (query_schema schemas) (query (req x))
      \<and> \<not> succeeds (body_schema schemas) (body (req x)) \<longrightarrow>
       processRequest_nc schemas x = validateRequest_nc schemas x)"
  by (simp add: processRequest_eq processRequest_nc_eq validateRequest_eq validateRequest_nc_eq
      Let_def sendErrors_eq sendErrors_nc_eq overlaid_unless_succeeds replaced_unless_succeeds)

theorem C6_witness:
  "\<not> succeeds (params_schema body_never) (params (req example_exchange))
   \<and> \<not> succeeds (query_schema body_never) (query (req example_exchange))
   \<and> \<not> succeeds (body_schema body_never) (body (req example_exchange))
   \<and> processRequest body_never example_exchange = validateRequest body_never example_exchange
   \<and> res (processRequest body_never example_exchange) =
       res (validateRequest body_never example_exchange)
   \<and> processRequest_nc body_never example_exchange = validateRequest_nc body_never example_exchange"
  using C6_validate_decides_like_process_without_coercing [of body_never example_exchange]
  by (simp add: body_never_succeeds)

section \<open>C7: the validation-only steps\<close>

text \<open>
  C7. \<open>validateRequestBody\<close>, \<open>validateRequestParams\<close> and \<open>validateRequestQuery\<close> (and the
  two of part_000): when the schema accepts the value of the section, the step calls the
  continuation once, writes nothing and leaves the request as it was; when the schema
  refuses it, the step writes one response, status 400, whose envelope holds exactly one
  entry, for that section, does not call the continuation and leaves the request as it
  was.
\<close>

theorem C7_validation_only_step:
  "(let y = validateRequestBody schema x
    in case schema (body (req x)) of
         ParseSuccess d \<Rightarrow> req y = req x \<and> res y = res x \<and> next_calls y = next_calls x + 1
       | ParseError e \<Rightarrow>
           req y = req x \<and> next_calls y = next_calls x
         \<and> res y = \<lparr>status_code = 400,
                     sent = sent (res x) @ [ErrorEnvelope [\<lparr>type = Body, errors = e\<rparr>]]\<rparr>)
 \<and> (let y = validateRequestParams schema x
    in case schema (params (req x)) of
         ParseSuccess d \<Rightarrow> req y = req x \<and> res y = res x \<and> next_calls y = next_calls x + 1
       | ParseError e \<Rightarrow>
           req y = req x \<and> next_calls y = next_calls x
         \<and> res y = \<lparr>status_code = 400,
                     sent = sent (res x) @ [ErrorEnvelope [\<lparr>type = Params, errors = e\<rparr>]]\<rparr>)
 \<and> (let y = validateRequestQuery schema x
    in case schema (query (req x)) of
         ParseSuccess d \<Rightarrow> req y = req x \<and> res y = res x \<and> next_calls y = next_calls x + 1
       | ParseError e \<Rightarrow>
           req y = req x \<and> next_calls y = next_calls x
         \<and> res y = \<lparr>status_code = 400,
                     sent = sent (res x) @ [ErrorEnvelope [\<lparr>type = Query, errors = e\<rparr>]]\<rparr>)
 \<and> (let y = validateRequestBody_nc schema x
    in case schema (body (req x)) of
         ParseSuccess d \<Rightarrow> req y = req x \<and> res y = res x \<and> next_calls y = next_calls x + 1
       | ParseError e \<Rightarrow>
           req y = req x \<and> next_calls y = next_calls x
         \<and> res y = \<lparr>status_code = 400,
                     sent = sent (res x) @ [ErrorEnvelope [\<lparr>type = Body, errors = e\<rparr>]]\<rparr>)
 \<and> (let y = validateRequestQuery_nc schema x
    in case schema (query (req x)) of
         ParseSuccess d \<Rightarrow> req y = req x \<and> res y = res x \<and> next_calls y = next_calls x + 1
       | ParseError e \<Rightarrow>
           req y = req x \<and> next_calls y = next_calls x
         \<and> res y = \<lparr>status_code = 400,
                     sent = sent (res x) @ [ErrorEnvelope [\<lparr>type = Query, errors = e\<rparr>]]\<rparr>)"
  by (simp add: validateRequestBody_def validateRequestParams_def validateRequestQuery_def
      validateRequestBody_nc_def validateRequestQuery_nc_def call_next_def
      sendErrors_eq sendErrors_nc_eq Let_def split: SafeParseReturn.splits)

theorem C7_witness:
  "validateRequestBody never_schema example_exchange =
     example_exchange\<lparr>res := \<lparr>status_code = 400,
        sent = [ErrorEnvelope [\<lparr>type = Body, errors = never_issue\<rparr>]]\<rparr>\<rparr>
   \<and> validateRequestQuery (transform_to bc34) example_exchange =
     example_exchange\<lparr>next_calls := 1\<rparr>"
  using C7_validation_only_step [of never_schema example_exchange]
    C7_validation_only_step [of "transform_to bc34" example_exchange]
  by (simp add: never_schema_def transform_to_def example_exchange_def Let_def)

section \<open>C8: the merge policy of the query step\<close>

text \<open>
  C8. When the query section is \<open>{ a: 1, b: 2 }\<close> and the schema parses it to
  \<open>{ b: 3, c: 4 }\<close>, the query section after \<open>processRequestQuery\<close> (of either file) is
  \<open>{ a: 1, b: 3, c: 4 }\<close>.
\<close>

theorem C8_query_merge_policy:
  assumes "query (req x) = JObj [''a'' \<mapsto> JNum 1, ''b'' \<mapsto> JNum 2]"
    and "schema (query (req x)) = ParseSuccess (JObj [''b'' \<mapsto> JNum 3, ''c'' \<mapsto> JNum 4])"
  shows "query (req (processRequestQuery schema x)) =
           JObj [''a'' \<mapsto> JNum 1, ''b'' \<mapsto> JNum 3, ''c'' \<mapsto> JNum 4]
       \<and> query (req (processRequestQuery_nc schema x)) =
           JObj [''a'' \<mapsto> JNum 1, ''b'' \<mapsto> JNum 3, ''c'' \<mapsto> JNum 4]"
  using assms
  by (simp add: processRequestQuery_def processRequestQuery_nc_def call_next_def spread_obj)

theorem C8_witness:
  "query (req example_exchange) = JObj [''a'' \<mapsto> JNum 1, ''b'' \<mapsto> JNum 2]
   \<and> transform_to bc34 (query (req example_exchange)) =
       ParseSuccess (JObj [''b'' \<mapsto> JNum 3, ''c'' \<mapsto> JNum 4])
   \<and> query (req (processRequestQuery (transform_to bc34) example_exchange)) =
       JObj [''a'' \<mapsto> JNum 1, ''b'' \<mapsto> JNum 3, ''c'' \<mapsto> JNum 4]
   \<and> query (req (processRequestQuery_nc (transform_to bc34) example_exchange)) =
       JObj [''a'' \<mapsto> JNum 1, ''b'' \<mapsto> JNum 3, ''c'' \<mapsto> JNum 4]"
proof -
  have q: "query (req example_exchange) = JObj [''a'' \<mapsto> JNum 1, ''b'' \<mapsto> JNum 2]"
    by (simp add: example_exchange_def ab12_def)
  have p: "transform_to bc34 (query (req example_exchange)) =
       ParseSuccess (JObj [''b'' \<mapsto> JNum 3, ''c'' \<mapsto> JNum 4])"
    by (simp add: transform_to_def bc34_def)
  show ?thesis
    using q p
      C8_query_merge_policy [where x = example_exchange and schema = "transform_to bc34", OF q p]
    by simp
qed

section \<open>C9: validating twice\<close>

text \<open>
  C9. When the schema accepts the value of the section, a validation-only step run a
  second time on what the first run left calls the continuation again, writes nothing,
  and leaves the request as the first run left it, which is as it was.
\<close>

theorem C9_validation_twice:
  "(succeeds (Some schema) (body (req x)) \<longrightarrow>
      (let y = validateRequestBody schema x; z = validateRequestBody schema y
       in req y = req x \<and> res y = res x \<and> next_calls y = next_calls x + 1
        \<and> req z = req y \<and> res z = res y \<and> next_calls z = next_calls y + 1))
 \<and> (succeeds (Some schema) (params (req x)) \<longrightarrow>
      (let y = validateRequestParams schema x; z = validateRequestParams schema y
       in req y = req x \<and> res y = res x \<and> next_calls y = next_calls x + 1
        \<and> req z = req y \<and> res z = res y \<and> next_calls z = next_calls y + 1))
 \<and> (succeeds (Some schema) (query (req x)) \<longrightarrow>
      (let y = validateRequestQuery schema x; z = validateRequestQuery schema y
       in req y = req x \<and> res y = res x \<and> next_calls y = next_calls x + 1
        \<and> req z = req y \<and> res z = res y \<and> next_calls z = next_calls y + 1))
 \<and> (succeeds (Some schema) (body (req x)) \<longrightarrow>
      (let y = validateRequestBody_nc schema x; z = validateRequestBody_nc schema y
       in req y = req x \<and> res y = res x \<and> next_calls y = next_calls x + 1
        \<and> req z = req y \<and> res z = res y \<and> next_calls z = next_calls y + 1))
 \<and> (succeeds (Some schema) (query (req x)) \<longrightarrow>
      (let y = validateRequestQuery_nc schema x; z = validateRequestQuery_nc schema y
       in req y = req x \<and> res y = res x \<and> next_calls y = next_calls x + 1
        \<and> req z = req y \<and> res z = res y \<and> next_calls z = next_calls y + 1))"
  by (simp add: succeeds_def validateRequestBody_def validateRequestParams_def
      validateRequestQuery_def validateRequestBody_nc_def validateRequestQuery_nc_def
      call_next_def Let_def split: SafeParseReturn.splits)

theorem C9_witness:
  "succeeds (Some (transform_to bc34)) (body (req example_exchange))
   \<and> req (validateRequestBody (transform_to bc34)
        (validateRequestBody (transform_to bc34) example_exchange)) = req example_exchange
   \<and> res (validateRequestBody (transform_to bc34)
        (validateRequestBody (transform_to bc34) example_exchange)) = res example_exchange
   \<and> next_calls (validateRequestBody (transform_to bc34)
        (validateRequestBody (transform_to bc34) example_exchange)) = 2"
proof -
  have s: "succeeds (Some (transform_to bc34)) (body (req example_exchange))"
    by (simp add: succeeds_def transform_to_def)
  have n: "next_calls example_exchange = 0"
    by (simp add: example_exchange_def)
  from s n C9_validation_twice [of "transform_to bc34" example_exchange, THEN conjunct1]
  show ?thesis
    by (simp add: Let_def)
qed

section \<open>C10: the params step and the query step\<close>

text \<open>
  C10. \<open>processRequestParams\<close> and \<open>processRequestQuery\<close> leave the same request and call
  the continuation equally often. Both parse \<open>request.query\<close>: when the schema accepts it
  the two results are equal, the coerced output laid over \<open>request.query\<close>; when it
  refuses, the responses differ in the label of the one entry, Params against Query.
  \<open>processRequestParams\<close> neither writes nor reads \<open>request.params\<close>: the section is left
  as it was, and with another value in it the step gives the same result but for that
  value.
\<close>

theorem C10_params_step_is_query_step:
  "(let p = processRequestParams schema x; q = processRequestQuery schema x
    in req p = req q \<and> next_calls p = next_calls q
     \<and> (case schema (query (req x)) of
          ParseSuccess d \<Rightarrow> p = q \<and> query (req p) = spread (query (req x)) d
        | ParseError e \<Rightarrow>
            res p = \<lparr>status_code = 400,
                      sent = sent (res x) @ [ErrorEnvelope [\<lparr>type = Params, errors = e\<rparr>]]\<rparr>
          \<and> res q = \<lparr>status_code = 400,
                      sent = sent (res x) @ [ErrorEnvelope [\<lparr>type = Query, errors = e\<rparr>]]\<rparr>))
 \<and> params (req (processRequestParams schema x)) = params (req x)
 \<and> processRequestParams schema (x\<lparr>req := (req x)\<lparr>params := v\<rparr>\<rparr>) =
     (processRequestParams schema x)\<lparr>req := (req (processRequestParams schema x))\<lparr>params := v\<rparr>\<rparr>"
  by (simp add: processRequestParams_def processRequestQuery_def call_next_def
      sendErrors_eq Let_def split: SafeParseReturn.splits)

theorem C10_witness:
  "processRequestParams wrap_seen example_exchange = processRequestQuery wrap_seen example_exchange
   \<and> query (req (processRequestParams wrap_seen example_exchange)) = spread ab12 (seen_of ab12)
   \<and> params (req (processRequestParams wrap_seen example_exchange)) = id7"
  using C10_params_step_is_query_step [of wrap_seen example_exchange JNull, THEN conjunct1]
    C10_params_step_is_query_step [of wrap_seen example_exchange JNull,
      THEN conjunct2, THEN conjunct1]
  by (auto simp add: wrap_seen_def example_exchange_def Let_def)

end
